theory Spec2Isabelle
  imports Complex_Main "HOL-Library.AList"
begin

section \<open>Attribution utilities of inseq: a shallow embedding\<close>

text \<open>
  The module \<^verbatim>\<open>inseq/attr/feat/attribution_utils.py\<close> is glue code between a
  user-facing attribution call and a gradient-attribution library. Its functions are
  embedded one by one. Exceptions are values of the type \<open>error\<close>, carried in the
  left summand of a result.
\<close>

subsection \<open>Exceptions\<close>

datatype error =
    ValueError string
  | AttributeError string
  | KeyError string
  | TypeError string

subsection \<open>\<^verbatim>\<open>check_attribute_positions\<close>\<close>

text \<open>
  The two optional positions are \<open>int option\<close> (\<open>None\<close> is Python's \<open>None\<close>).
  The body rebinds \<open>attr_pos_start\<close> and \<open>attr_pos_end\<close> and then runs the two
  guards in the order of the source.
\<close>

definition check_attribute_positions ::
  "int \<Rightarrow> int option \<Rightarrow> int option \<Rightarrow> error + (int \<times> int)" where
  "check_attribute_positions max_length attr_pos_start attr_pos_end =
     (let attr_pos_start = (case attr_pos_start of None \<Rightarrow> 1 | Some s \<Rightarrow> s);
          attr_pos_end = (case attr_pos_end of
                            None \<Rightarrow> max_length
                          | Some e \<Rightarrow> if e > max_length then max_length else e)
      in if attr_pos_start > attr_pos_end \<or> attr_pos_start < 1
         then Inl (ValueError ''Invalid starting position for attribution'')
         else if attr_pos_start = attr_pos_end
         then Inl (ValueError ''Start and end attribution positions cannot be the same.'')
         else Inr (attr_pos_start, attr_pos_end))"

subsection \<open>\<^verbatim>\<open>tok2string\<close>\<close>

text \<open>
  Python's slice \<^verbatim>\<open>xs[start:stop]\<close> for integer bounds: a negative bound counts from the
  end of the list, both bounds are clamped into \<open>0..len(xs)\<close>, and a stop at or before the
  start gives the empty list.
\<close>

definition py_slice :: "'a list \<Rightarrow> int \<Rightarrow> int \<Rightarrow> 'a list" where
  "py_slice xs start stop =
     (let n = int (length xs);
          lo = (if start < 0 then max (start + n) 0 else min start n);
          hi = (if stop < 0 then max (stop + n) 0 else min stop n)
      in take (nat (hi - lo)) (drop (nat lo) xs))"

text \<open>
  The attribution model enters only through its method \<^verbatim>\<open>convert_tokens_to_string\<close>, which
  is the first argument here. The source builds one list of starts and one list of ends,
  then slices the i-th sequence with the i-th entries of both.
\<close>

definition tok2string ::
  "(string list list \<Rightarrow> bool \<Rightarrow> 'r) \<Rightarrow> string list list \<Rightarrow> int option \<Rightarrow> int option \<Rightarrow> bool \<Rightarrow> 'r" where
  "tok2string convert_tokens_to_string token_lists start end' as_targets =
     (let starts = map (\<lambda>_. case start of None \<Rightarrow> 0 | Some s \<Rightarrow> s) token_lists;
          ends = map (\<lambda>tokens. case end' of None \<Rightarrow> int (length tokens) | Some e \<Rightarrow> e) token_lists
      in convert_tokens_to_string
           (map (\<lambda>(i, tokens). py_slice tokens (starts ! i) (ends ! i)) (enumerate 0 token_lists))
           as_targets)"

subsection \<open>\<^verbatim>\<open>rescale_attributions_to_tokens\<close>\<close>

text \<open>
  An attribution score is a Python float. The function asks one thing of it, whether it is
  NaN, so a float is a real number, one of the two infinities, or NaN.
\<close>

datatype pyfloat = Finite real | PosInf | NegInf | NaN

fun isnan :: "pyfloat \<Rightarrow> bool" where
  "isnan NaN = True"
| "isnan _ = False"

text \<open>
  The comprehension variable \<open>tokens\<close> shadows the parameter of the same name: the
  \<open>zip\<close> is over the parameter, the \<open>len\<close> is of one token sequence.
\<close>

definition rescale_attributions_to_tokens ::
  "pyfloat list list \<Rightarrow> string list list \<Rightarrow> pyfloat list list" where
  "rescale_attributions_to_tokens attributions tokens =
     map (\<lambda>(attr, tokens). if \<not> list_all isnan attr then take (length tokens) attr else [])
         (zip attributions tokens)"

subsection \<open>\<^verbatim>\<open>join_token_ids\<close>\<close>



subsection \<open>Python values and dictionaries\<close>

text \<open>
  The values the module moves around without looking inside: tensors (\<open>'t\<close>), callables
  (\<open>'f\<close>) and any other object (\<open>'v\<close>), together with the booleans, string lists and
  tuples it builds itself.
\<close>

datatype ('t, 'f, 'v) pyval =
    Tensor 't
  | Callable 'f
  | Bool bool
  | StrList "string list"
  | Tuple "('t, 'f, 'v) pyval list"
  | Obj 'v

text \<open>
  A dictionary is an association list in insertion order, as Python keeps it:
  \<^verbatim>\<open>d[k] = v\<close> is \<^const>\<open>AList.update\<close> (an existing key keeps its place, a new key goes to
  the end), \<^verbatim>\<open>k in d\<close> is \<open>map_of d k \<noteq> None\<close>, \<^verbatim>\<open>d.keys()\<close> is \<open>map fst d\<close> and
  \<^verbatim>\<open>d.values()\<close> is \<open>map snd d\<close>.
\<close>

type_synonym ('t, 'f, 'v) pydict = "(string \<times> ('t, 'f, 'v) pyval) list"

text \<open>\<^verbatim>\<open>d.update(other)\<close> stores the items of \<open>other\<close> one after the other.\<close>

definition dict_update :: "('k \<times> 'a) list \<Rightarrow> ('k \<times> 'a) list \<Rightarrow> ('k \<times> 'a) list" where
  "dict_update d other = fold (\<lambda>(k, v). AList.update k v) other d"

subsection \<open>Batches\<close>

text \<open>
  The batch classes are declared in \<^verbatim>\<open>inseq/data/batch.py\<close>, outside the module. The fields
  below are the attributes the module reads. An encoder-decoder batch has a source side
  and a target side; a decoder-only batch is a single side.
\<close>

record 't batch_side =
  input_tokens :: "string list list"
  input_ids :: 't
  input_embeds :: 't
  baseline_ids :: 't
  baseline_embeds :: 't
  attention_mask :: 't

datatype 't batch =
    EncoderDecoderBatch "'t batch_side" "'t batch_side"
  | DecoderOnlyBatch "'t batch_side"

subsection \<open>\<^verbatim>\<open>format_attribute_args\<close> and its two formatters\<close>

text \<open>
  \<^verbatim>\<open>target_ids.unsqueeze(-1)\<close> is a tensor operation of the library; it is the parameter
  \<open>unsqueeze\<close>. A formatter that is handed the other kind of batch fails at its first
  attribute access.
\<close>

fun format_attribute_args_encoder_decoder ::
  "('t \<Rightarrow> int \<Rightarrow> 't) \<Rightarrow> 't batch \<Rightarrow> 't \<Rightarrow> 'f \<Rightarrow> bool \<Rightarrow> ('t, 'f, 'v) pydict \<Rightarrow> bool \<Rightarrow>
     error + (('t, 'f, 'v) pydict \<times> ('t, 'f, 'v) pyval)" where
  "format_attribute_args_encoder_decoder unsqueeze (EncoderDecoderBatch sources targets)
       target_ids attributed_fn attribute_target attributed_fn_args is_layer_attribution =
     (let (inputs, baselines) =
            (if is_layer_attribution
             then ([Tensor (input_ids sources)], [Tensor (baseline_ids sources)])
             else ([Tensor (input_embeds sources)], [Tensor (baseline_embeds sources)]));
          (inputs, baselines) =
            (if attribute_target
             then (inputs @ [Tensor (input_embeds targets)],
                   baselines @ [Tensor (baseline_embeds targets)])
             else (inputs, baselines));
          additional_forward_args =
            [Tensor (input_ids sources),
             Tensor (input_ids targets),
             Tensor (unsqueeze target_ids (- 1)),
             Callable attributed_fn,
             Tensor (attention_mask sources),
             Tensor (attention_mask targets),
             Bool (\<not> is_layer_attribution),
             StrList (map fst attributed_fn_args)]
            @ map snd attributed_fn_args;
          attribute_fn_args =
            [(''inputs'', Tuple inputs),
             (''additional_forward_args'', Tuple additional_forward_args)];
          attribute_fn_args =
            (if \<not> attribute_target
             then AList.update ''additional_forward_args''
                    (Tuple ([Tensor (input_embeds targets)] @ additional_forward_args))
                    attribute_fn_args
             else attribute_fn_args)
      in Inr (attribute_fn_args, Tuple baselines))"
| "format_attribute_args_encoder_decoder unsqueeze (DecoderOnlyBatch b)
       target_ids attributed_fn attribute_target attributed_fn_args is_layer_attribution =
     Inl (AttributeError ''DecoderOnlyBatch object has no attribute sources'')"

fun format_attribute_args_decoder_only ::
  "('t \<Rightarrow> int \<Rightarrow> 't) \<Rightarrow> 't batch \<Rightarrow> 't \<Rightarrow> 'f \<Rightarrow> ('t, 'f, 'v) pydict \<Rightarrow> bool \<Rightarrow>
     error + (('t, 'f, 'v) pydict \<times> ('t, 'f, 'v) pyval)" where
  "format_attribute_args_decoder_only unsqueeze (DecoderOnlyBatch batch)
       target_ids attributed_fn attributed_fn_args is_layer_attribution =
     (let (inputs, baselines) =
            (if is_layer_attribution
             then ([Tensor (input_ids batch)], [Tensor (baseline_ids batch)])
             else ([Tensor (input_embeds batch)], [Tensor (baseline_embeds batch)]));
          attribute_fn_args =
            [(''inputs'', Tuple inputs),
             (''additional_forward_args'',
              Tuple ([Tensor (input_ids batch),
                      Tensor (unsqueeze target_ids (- 1)),
                      Callable attributed_fn,
                      Tensor (attention_mask batch),
                      Bool (\<not> is_layer_attribution),
                      StrList (map fst attributed_fn_args)]
                     @ map snd attributed_fn_args))]
      in Inr (attribute_fn_args, Tuple baselines))"
| "format_attribute_args_decoder_only unsqueeze (EncoderDecoderBatch sources targets)
       target_ids attributed_fn attributed_fn_args is_layer_attribution =
     Inl (AttributeError ''EncoderDecoderBatch object has no attribute input_ids'')"

text \<open>
  The dispatcher builds the keyword arguments of the formatter (\<open>attribute_target\<close> is
  among them for the encoder-decoder formatter only), calls it, and stores the baselines
  under the key \<^verbatim>\<open>baselines\<close> when \<open>use_baseline\<close> is set.
\<close>

definition format_attribute_args ::
  "('t \<Rightarrow> int \<Rightarrow> 't) \<Rightarrow> 't batch \<Rightarrow> 't \<Rightarrow> 'f \<Rightarrow> bool \<Rightarrow> ('t, 'f, 'v) pydict \<Rightarrow> bool \<Rightarrow> bool \<Rightarrow> bool \<Rightarrow>
     error + ('t, 'f, 'v) pydict" where
  "format_attribute_args unsqueeze batch target_ids attributed_fn attribute_target
       attributed_fn_args is_layer_attribution use_baseline is_encoder_decoder =
     (case (if is_encoder_decoder
            then format_attribute_args_encoder_decoder unsqueeze batch target_ids attributed_fn
                   attribute_target attributed_fn_args is_layer_attribution
            else format_attribute_args_decoder_only unsqueeze batch target_ids attributed_fn
                   attributed_fn_args is_layer_attribution) of
        Inl e \<Rightarrow> Inl e
      | Inr (attribute_fn_args, baselines) \<Rightarrow>
          Inr (if use_baseline
               then AList.update ''baselines'' baselines attribute_fn_args
               else attribute_fn_args))"

subsection \<open>The process-wide registries\<close>

text \<open>
  \<^verbatim>\<open>STEP_SCORES_MAP\<close> maps an identifier to a scoring function.
  \<^verbatim>\<open>DEFAULT_ATTRIBUTION_AGGREGATE_DICT\<close> is imported from \<^verbatim>\<open>inseq/data/attribution.py\<close>, a
  nested dictionary whose leaves are aggregation functions; the module reaches into its
  entry \<^verbatim>\<open>step_scores\<close>. Both are module globals, so a function that reads or writes them
  takes the record of the two and, if it writes, returns the new record.
\<close>

datatype 'f aggr = AggFn 'f | AggDict "(string \<times> 'f aggr) list"

record 'f globals =
  STEP_SCORES_MAP :: "(string \<times> 'f) list"
  DEFAULT_ATTRIBUTION_AGGREGATE_DICT :: "(string \<times> 'f aggr) list"

text \<open>
  The globals as they are once the module is imported. The four scoring functions come
  from \<^verbatim>\<open>inseq/utils\<close> and the aggregate dictionary from \<^verbatim>\<open>inseq/data/attribution.py\<close>; they
  are parameters.
\<close>

definition module_globals :: "'f \<Rightarrow> 'f \<Rightarrow> 'f \<Rightarrow> 'f \<Rightarrow> (string \<times> 'f aggr) list \<Rightarrow> 'f globals" where
  "module_globals output2prob output2ent output2ce output2ppl aggregate_dict =
     \<lparr>STEP_SCORES_MAP =
        [(''probability'', output2prob),
         (''entropy'', output2ent),
         (''crossentropy'', output2ce),
         (''perplexity'', output2ppl)],
      DEFAULT_ATTRIBUTION_AGGREGATE_DICT = aggregate_dict\<rparr>"

definition list_step_scores :: "'f globals \<Rightarrow> string list" where
  "list_step_scores g = map fst (STEP_SCORES_MAP g)"

text \<open>
  The loop of \<^verbatim>\<open>register_step_score\<close> over \<^verbatim>\<open>aggregate_map.items()\<close>. Each round reads
  \<^verbatim>\<open>DEFAULT_ATTRIBUTION_AGGREGATE_DICT["step_scores"]\<close> (a \<open>KeyError\<close> when the entry is
  missing), creates the dictionary of \<open>agg_name\<close> when there is none, and stores
  \<open>agg_fn\<close> under \<open>identifier\<close> in it. What was written before an exception stays
  written.
\<close>

fun register_aggregates ::
  "string \<Rightarrow> (string \<times> 'f) list \<Rightarrow> (string \<times> 'f aggr) list \<Rightarrow>
     (error + unit) \<times> (string \<times> 'f aggr) list" where
  "register_aggregates identifier [] aggregate_dict = (Inr (), aggregate_dict)"
| "register_aggregates identifier ((agg_name, agg_fn) # items) aggregate_dict =
     (case map_of aggregate_dict ''step_scores'' of
        None \<Rightarrow> (Inl (KeyError ''step_scores''), aggregate_dict)
      | Some (AggFn f) \<Rightarrow>
          (Inl (TypeError ''argument of type function is not iterable''), aggregate_dict)
      | Some (AggDict step_scores) \<Rightarrow>
          (let step_scores =
                 (if map_of step_scores agg_name = None
                  then AList.update agg_name (AggDict []) step_scores
                  else step_scores)
           in case map_of step_scores agg_name of
                Some (AggDict by_identifier) \<Rightarrow>
                  register_aggregates identifier items
                    (AList.update ''step_scores''
                       (AggDict (AList.update agg_name
                          (AggDict (AList.update identifier (AggFn agg_fn) by_identifier))
                          step_scores))
                       aggregate_dict)
              | _ \<Rightarrow>
                  (Inl (TypeError ''function object does not support item assignment''),
                   aggregate_dict)))"

text \<open>
  \<open>aggregate_map\<close> is \<open>None\<close> or a dictionary; the \<^verbatim>\<open>isinstance\<close> test is the case
  distinction on the option.
\<close>

definition register_step_score ::
  "'f \<Rightarrow> string \<Rightarrow> (string \<times> 'f) list option \<Rightarrow> 'f globals \<Rightarrow> (error + unit) \<times> 'f globals" where
  "register_step_score fn identifier aggregate_map g =
     (let g = g\<lparr>STEP_SCORES_MAP := AList.update identifier fn (STEP_SCORES_MAP g)\<rparr>
      in case aggregate_map of
           None \<Rightarrow> (Inr (), g)
         | Some items \<Rightarrow>
             (let (r, aggregate_dict) =
                    register_aggregates identifier items (DEFAULT_ATTRIBUTION_AGGREGATE_DICT g)
              in (r, g\<lparr>DEFAULT_ATTRIBUTION_AGGREGATE_DICT := aggregate_dict\<rparr>)))"

subsection \<open>\<^verbatim>\<open>get_step_scores\<close>\<close>


subsection \<open>\<^verbatim>\<open>extract_args\<close>\<close>

text \<open>
  The keyword arguments of \<^verbatim>\<open>extract_args\<close>. The three keywords it pops are dictionaries
  where they are given (the caller declares them \<^verbatim>\<open>Dict[str, Any]\<close>); \<open>kw_rest\<close> holds
  every other keyword, which is what \<^verbatim>\<open>kwargs\<close> is after the three \<^verbatim>\<open>pop\<close>s.
\<close>

record ('t, 'f, 'v) kwargs =
  kw_attribution_args :: "('t, 'f, 'v) pydict option"
  kw_attributed_fn_args :: "('t, 'f, 'v) pydict option"
  kw_step_scores_args :: "('t, 'f, 'v) pydict option"
  kw_rest :: "('t, 'f, 'v) pydict"

fun join :: "string \<Rightarrow> string list \<Rightarrow> string" where
  "join sep [] = []"
| "join sep [x] = x"
| "join sep (x # y # ys) = x @ sep @ join sep (y # ys)"

text \<open>
  \<^verbatim>\<open>extract_signature_args\<close> is a helper of \<^verbatim>\<open>inseq/utils\<close>, and
  \<^verbatim>\<open>get_attribution_args\<close> a method of the attribution method; both are parameters. The
  helper takes the keyword arguments, a callable, the names to exclude and the flag
  \<open>return_remaining\<close>; it is given as a function to a pair of dictionaries (extracted,
  remaining), of which the source receives the first alone when the flag is off.

  The loop over \<open>step_scores\<close>: an identifier missing from the registry stops it with an
  \<open>AttributeError\<close>; otherwise the arguments extracted for the registered function are
  merged into \<open>extra_step_scores_args\<close>.
\<close>

fun extract_step_scores_args ::
  "(('t, 'f, 'v) pydict \<Rightarrow> 'f \<Rightarrow> string list \<Rightarrow> bool \<Rightarrow> ('t, 'f, 'v) pydict \<times> ('t, 'f, 'v) pydict) \<Rightarrow>
     'f globals \<Rightarrow> ('t, 'f, 'v) pydict \<Rightarrow> string list \<Rightarrow> string list \<Rightarrow> ('t, 'f, 'v) pydict \<Rightarrow>
     error + ('t, 'f, 'v) pydict" where
  "extract_step_scores_args extract_signature_args g kwargs default_args []
       extra_step_scores_args = Inr extra_step_scores_args"
| "extract_step_scores_args extract_signature_args g kwargs default_args (step_score # step_scores)
       extra_step_scores_args =
     (case map_of (STEP_SCORES_MAP g) step_score of
        None \<Rightarrow>
          Inl (AttributeError
                (''Step score '' @ step_score @ '' not found. Available step scores are: ''
                 @ join '', '' (map fst (STEP_SCORES_MAP g))
                 @ ''. Use the inseq.register_step_score''
                 @ ''function to register a custom step score.''))
      | Some fn \<Rightarrow>
          extract_step_scores_args extract_signature_args g kwargs default_args step_scores
            (dict_update extra_step_scores_args
               (fst (extract_signature_args kwargs fn default_args False))))"

text \<open>
  The result is the triple of merged dictionaries together with what the function logs:
  the warning about unused arguments, when there are any.
\<close>

definition extract_args ::
  "(('t, 'f, 'v) pydict \<Rightarrow> ('t, 'f, 'v) pydict \<times> ('t, 'f, 'v) pydict) \<Rightarrow>
   (('t, 'f, 'v) pydict \<Rightarrow> 'f \<Rightarrow> string list \<Rightarrow> bool \<Rightarrow> ('t, 'f, 'v) pydict \<times> ('t, 'f, 'v) pydict) \<Rightarrow>
   'f globals \<Rightarrow> 'f \<Rightarrow> string list \<Rightarrow> string list \<Rightarrow> ('t, 'f, 'v) kwargs \<Rightarrow>
     error + ((('t, 'f, 'v) pydict \<times> ('t, 'f, 'v) pydict \<times> ('t, 'f, 'v) pydict)
              \<times> ('t, 'f, 'v) pydict list)" where
  "extract_args get_attribution_args extract_signature_args g attributed_fn step_scores
       default_args kw =
     (let attribution_args = (case kw_attribution_args kw of None \<Rightarrow> [] | Some d \<Rightarrow> d);
          attributed_fn_args = (case kw_attributed_fn_args kw of None \<Rightarrow> [] | Some d \<Rightarrow> d);
          step_scores_args = (case kw_step_scores_args kw of None \<Rightarrow> [] | Some d \<Rightarrow> d);
          kwargs = kw_rest kw;
          (extra_attribution_args, attribution_unused_args) = get_attribution_args kwargs;
          (extra_attributed_fn_args, attributed_fn_unused_args) =
            extract_signature_args kwargs attributed_fn default_args True
      in case extract_step_scores_args extract_signature_args g kwargs default_args
                step_scores [] of
           Inl e \<Rightarrow> Inl e
         | Inr extra_step_scores_args \<Rightarrow>
             (let step_scores_unused_args =
                    filter (\<lambda>(k, v). k \<notin> set (map fst extra_step_scores_args)) kwargs;
                  unused_args =
                    filter (\<lambda>(k, v). k \<in> set (map fst attribution_unused_args)
                                        \<inter> set (map fst attributed_fn_unused_args)
                                        \<inter> set (map fst step_scores_unused_args))
                           kwargs;
                  warnings = (if unused_args \<noteq> [] then [unused_args] else [])
              in Inr ((dict_update attribution_args extra_attribution_args,
                       dict_update attributed_fn_args extra_attributed_fn_args,
                       dict_update step_scores_args extra_step_scores_args),
                      warnings)))"

subsection \<open>Dictionaries as shared objects\<close>

text \<open>
  Up to here a dictionary is a value. Python hands a dictionary over by reference, and
  \<^verbatim>\<open>d[k] = v\<close> or \<^verbatim>\<open>d.update(...)\<close> changes the object for everyone who holds it. To follow
  the writes of the module, dictionaries live in a store: the list of all dictionary
  objects, the address of an object being its index. An object stored in a dictionary is
  a reference to a dictionary of the store, or something else.
\<close>

datatype 'v objref = Ref nat | Other 'v

type_synonym ('t, 'f, 'v) store = "('t, 'f, 'v objref) pydict list"

text \<open>A new dictionary object gets the next address.\<close>

definition alloc :: "'a \<Rightarrow> 'a list \<Rightarrow> nat \<times> 'a list" where
  "alloc obj h = (length h, h @ [obj])"

text \<open>
  The module binds its two global names once, at import, and never rebinds them; what can
  change is the dictionary objects they are bound to. In the store the scoring function
  \<open>fn\<close> of the registry is the value \<open>Callable fn\<close>, and the nested dictionaries of
  \<^verbatim>\<open>DEFAULT_ATTRIBUTION_AGGREGATE_DICT\<close> are objects of their own, held by reference.
\<close>

record bindings =
  STEP_SCORES_MAP_at :: nat
  DEFAULT_ATTRIBUTION_AGGREGATE_DICT_at :: nat






text \<open>
  \<^verbatim>\<open>register_step_score\<close> on the store: the assignment to \<^verbatim>\<open>STEP_SCORES_MAP[identifier]\<close>,
  then the loop over the items of \<open>aggregate_map\<close>, which follows the references from
  \<^verbatim>\<open>DEFAULT_ATTRIBUTION_AGGREGATE_DICT\<close> to the dictionary of \<open>agg_name\<close>, creating it when
  it is missing.
\<close>

fun register_aggregates_in_place ::
  "nat \<Rightarrow> string \<Rightarrow> (string \<times> 'f) list \<Rightarrow> ('t, 'f, 'v) store \<Rightarrow> (error + unit) \<times> ('t, 'f, 'v) store" where
  "register_aggregates_in_place aggregate_dict identifier [] h = (Inr (), h)"
| "register_aggregates_in_place aggregate_dict identifier ((agg_name, agg_fn) # items) h =
     (case map_of (h ! aggregate_dict) ''step_scores'' of
        None \<Rightarrow> (Inl (KeyError ''step_scores''), h)
      | Some (Obj (Ref step_scores)) \<Rightarrow>
          (let h = (if map_of (h ! step_scores) agg_name = None
                    then (let (created, h) = alloc [] h
                          in h[step_scores :=
                                 AList.update agg_name (Obj (Ref created)) (h ! step_scores)])
                    else h)
           in case map_of (h ! step_scores) agg_name of
                Some (Obj (Ref by_identifier)) \<Rightarrow>
                  register_aggregates_in_place aggregate_dict identifier items
                    (h[by_identifier :=
                         AList.update identifier (Callable agg_fn) (h ! by_identifier)])
              | _ \<Rightarrow> (Inl (TypeError ''object does not support item assignment''), h))
      | Some v \<Rightarrow> (Inl (TypeError ''argument is not iterable''), h))"

definition register_step_score_in_place ::
  "bindings \<Rightarrow> 'f \<Rightarrow> string \<Rightarrow> (string \<times> 'f) list option \<Rightarrow> ('t, 'f, 'v) store \<Rightarrow>
     (error + unit) \<times> ('t, 'f, 'v) store" where
  "register_step_score_in_place m fn identifier aggregate_map h =
     (let h = h[STEP_SCORES_MAP_at m :=
                  AList.update identifier (Callable fn) (h ! STEP_SCORES_MAP_at m)]
      in case aggregate_map of
           None \<Rightarrow> (Inr (), h)
         | Some items \<Rightarrow>
             register_aggregates_in_place (DEFAULT_ATTRIBUTION_AGGREGATE_DICT_at m) identifier
               items h)"

subsection \<open>The operations of the module on the store\<close>









section \<open>Properties\<close>

subsection \<open>Attribution positions\<close>

lemma check_attribute_positions_raises_iff:
  "(\<exists>e. check_attribute_positions max_length attr_pos_start attr_pos_end = Inl e) \<longleftrightarrow>
     (let s = (case attr_pos_start of None \<Rightarrow> 1 | Some s \<Rightarrow> s);
          e = (case attr_pos_end of None \<Rightarrow> max_length
                | Some e \<Rightarrow> if e > max_length then max_length else e)
      in s \<ge> e \<or> s < 1)"
  by (auto simp: check_attribute_positions_def Let_def split: option.splits)

text \<open>
  C1. The docstring promises a \<open>ValueError\<close> exactly when the resolved start is greater or
  equal than the resolved end or the start is below 0. At start position 0 with a longer
  sequence neither condition holds, and the code raises all the same, since its guard
  tests \<open>attr_pos_start < 1\<close>.
\<close>

theorem check_attribute_positions_start_zero_raises:
  "check_attribute_positions 5 (Some 0) None =
     Inl (ValueError ''Invalid starting position for attribution'')
   \<and> \<not> ((0::int) \<ge> 5 \<or> (0::int) < 0)"
  by (simp add: check_attribute_positions_def)

text \<open>
  C2. A missing start resolves to 1, an end that is missing or beyond \<open>max_length\<close>
  resolves to \<open>max_length\<close>, and a normal return hands back exactly the resolved pair.
\<close>

theorem check_attribute_positions_returns_resolved:
  "check_attribute_positions max_length attr_pos_start attr_pos_end = Inr (s, e) \<Longrightarrow>
     s = (case attr_pos_start of None \<Rightarrow> 1 | Some v \<Rightarrow> v) \<and>
     e = (case attr_pos_end of None \<Rightarrow> max_length
           | Some v \<Rightarrow> if v > max_length then max_length else v)"
  by (auto simp: check_attribute_positions_def Let_def split: option.splits if_splits)

theorem check_attribute_positions_returns_resolved_witness:
  "check_attribute_positions 5 None (Some 9) = Inr (1, 5) \<and>
   (1::int) = (case (None::int option) of None \<Rightarrow> 1 | Some v \<Rightarrow> v) \<and>
   (5::int) = (case Some (9::int) of None \<Rightarrow> 5 | Some v \<Rightarrow> if v > 5 then 5 else v)"
proof -
  have r: "check_attribute_positions 5 None (Some 9) = Inr (1, 5)"
    by (simp add: check_attribute_positions_def)
  from check_attribute_positions_returns_resolved [OF r] r show ?thesis by simp
qed

text \<open>
  C3. Every pair that is returned satisfies \<open>1 \<le> start < end \<le> max_length\<close>.
\<close>

theorem check_attribute_positions_range:
  "check_attribute_positions max_length attr_pos_start attr_pos_end = Inr (s, e) \<Longrightarrow>
     1 \<le> s \<and> s < e \<and> e \<le> max_length"
  by (auto simp: check_attribute_positions_def Let_def split: option.splits if_splits)

theorem check_attribute_positions_range_witness:
  "check_attribute_positions 7 (Some 2) (Some 4) = Inr (2, 4) \<and>
   (1::int) \<le> 2 \<and> (2::int) < 4 \<and> (4::int) \<le> 7"
proof -
  have r: "check_attribute_positions 7 (Some 2) (Some 4) = Inr (2, 4)"
    by (simp add: check_attribute_positions_def)
  from check_attribute_positions_range [OF r] r show ?thesis by simp
qed

subsection \<open>Slicing token sequences\<close>

lemma nth_enumerate_slices:
  "map (\<lambda>(i, tokens). f tokens (map g token_lists ! i) (map h token_lists ! i))
       (enumerate 0 token_lists)
   = map (\<lambda>tokens. f tokens (g tokens) (h tokens)) token_lists"
  by (rule nth_equalityI) (simp_all add: nth_enumerate_eq)

text \<open>
  C9. A missing start is 0 for every sequence, a missing end is the length of the sequence
  itself, an explicit start or end is the same for all sequences, and what reaches
  \<^verbatim>\<open>convert_tokens_to_string\<close> is the list of the slices \<^verbatim>\<open>tokens[start:end]\<close>, one per
  sequence and in the order of the input.
\<close>

theorem tok2string_passes_slices:
  "tok2string convert_tokens_to_string token_lists start end' as_targets =
     convert_tokens_to_string
       (map (\<lambda>tokens. py_slice tokens
                        (case start of None \<Rightarrow> 0 | Some s \<Rightarrow> s)
                        (case end' of None \<Rightarrow> int (length tokens) | Some e \<Rightarrow> e))
            token_lists)
       as_targets"
  unfolding tok2string_def Let_def
  by (simp only: nth_enumerate_slices [where f = py_slice])

subsection \<open>Rescaling attributions\<close>

text \<open>
  C10. At every index that both lists have, the result is empty when all scores of the
  attribution sequence are NaN and is the first \<open>len(tokens)\<close> scores otherwise; so it is
  never longer than the token sequence at that index.
\<close>

theorem rescale_attributions_to_tokens_entries:
  "i < length attributions \<Longrightarrow> i < length tokens \<Longrightarrow>
     i < length (rescale_attributions_to_tokens attributions tokens) \<and>
     rescale_attributions_to_tokens attributions tokens ! i =
       (if list_all isnan (attributions ! i) then []
        else take (length (tokens ! i)) (attributions ! i)) \<and>
     length (rescale_attributions_to_tokens attributions tokens ! i) \<le> length (tokens ! i)"
  by (simp add: rescale_attributions_to_tokens_def)

theorem rescale_attributions_to_tokens_entries_witness:
  "rescale_attributions_to_tokens
     [[NaN, NaN], [Finite 1, NaN, Finite 2]] [[''a'', ''b''], [''c'', ''d'']] ! 1
   = [Finite 1, NaN] \<and>
   rescale_attributions_to_tokens
     [[NaN, NaN], [Finite 1, NaN, Finite 2]] [[''a'', ''b''], [''c'', ''d'']] ! 0
   = []"
  using rescale_attributions_to_tokens_entries
          [of 1 "[[NaN, NaN], [Finite 1, NaN, Finite 2]]" "[[''a'', ''b''], [''c'', ''d'']]"]
        rescale_attributions_to_tokens_entries
          [of 0 "[[NaN, NaN], [Finite 1, NaN, Finite 2]]" "[[''a'', ''b''], [''c'', ''d'']]"]
  by simp

subsection \<open>Formatting the arguments of the attribution call\<close>

lemma format_attribute_args_encoder_decoder_keys:
  "format_attribute_args_encoder_decoder unsqueeze batch target_ids attributed_fn
       attribute_target attributed_fn_args is_layer_attribution = Inr (d, baselines) \<Longrightarrow>
   map fst d = [''inputs'', ''additional_forward_args'']"
  by (cases batch) (auto simp: Let_def split: if_splits)

lemma format_attribute_args_decoder_only_keys:
  "format_attribute_args_decoder_only unsqueeze batch target_ids attributed_fn
       attributed_fn_args is_layer_attribution = Inr (d, baselines) \<Longrightarrow>
   map fst d = [''inputs'', ''additional_forward_args'']"
  by (cases batch) (auto simp: Let_def split: if_splits)

text \<open>
  C7. \<^verbatim>\<open>format_attribute_args\<close> calls the encoder-decoder formatter, with
  \<open>attribute_target\<close>, when \<open>is_encoder_decoder\<close> is set, and the decoder-only formatter
  otherwise. When the formatter returns a dictionary and baselines, the function returns
  that dictionary, with the baselines added under the key \<^verbatim>\<open>baselines\<close> if \<open>use_baseline\<close>
  is set and as it is if not; when the formatter raises, so does the function. Conversely a
  returned dictionary comes from the formatter in this way, every key but \<^verbatim>\<open>baselines\<close>
  keeps the formatter's value, and the key \<^verbatim>\<open>baselines\<close> is present exactly when
  \<open>use_baseline\<close> is set. On a batch of the kind that \<open>is_encoder_decoder\<close> announces the
  function returns.
\<close>

theorem format_attribute_args_dispatch:
  "(\<forall>attribute_fn_args baselines.
      (if is_encoder_decoder
       then format_attribute_args_encoder_decoder unsqueeze batch target_ids attributed_fn
              attribute_target attributed_fn_args is_layer_attribution
       else format_attribute_args_decoder_only unsqueeze batch target_ids attributed_fn
              attributed_fn_args is_layer_attribution) = Inr (attribute_fn_args, baselines) \<longrightarrow>
      format_attribute_args unsqueeze batch target_ids attributed_fn attribute_target
        attributed_fn_args is_layer_attribution use_baseline is_encoder_decoder =
        Inr (if use_baseline then attribute_fn_args @ [(''baselines'', baselines)]
             else attribute_fn_args) \<and>
      ''baselines'' \<notin> set (map fst attribute_fn_args)) \<and>
   (\<forall>e.
      (if is_encoder_decoder
       then format_attribute_args_encoder_decoder unsqueeze batch target_ids attributed_fn
              attribute_target attributed_fn_args is_layer_attribution
       else format_attribute_args_decoder_only unsqueeze batch target_ids attributed_fn
              attributed_fn_args is_layer_attribution) = Inl e \<longrightarrow>
      format_attribute_args unsqueeze batch target_ids attributed_fn attribute_target
        attributed_fn_args is_layer_attribution use_baseline is_encoder_decoder = Inl e) \<and>
   (\<forall>d.
      format_attribute_args unsqueeze batch target_ids attributed_fn attribute_target
        attributed_fn_args is_layer_attribution use_baseline is_encoder_decoder = Inr d \<longrightarrow>
      (\<exists>attribute_fn_args baselines.
         (if is_encoder_decoder
          then format_attribute_args_encoder_decoder unsqueeze batch target_ids attributed_fn
                 attribute_target attributed_fn_args is_layer_attribution
          else format_attribute_args_decoder_only unsqueeze batch target_ids attributed_fn
                 attributed_fn_args is_layer_attribution) = Inr (attribute_fn_args, baselines) \<and>
         d = (if use_baseline then attribute_fn_args @ [(''baselines'', baselines)]
              else attribute_fn_args) \<and>
         (\<forall>k. k \<noteq> ''baselines'' \<longrightarrow> map_of d k = map_of attribute_fn_args k)) \<and>
      (''baselines'' \<in> set (map fst d) \<longleftrightarrow> use_baseline)) \<and>
   ((case batch of EncoderDecoderBatch sources targets \<Rightarrow> is_encoder_decoder
               | DecoderOnlyBatch b \<Rightarrow> \<not> is_encoder_decoder) \<longrightarrow>
      (\<exists>d. format_attribute_args unsqueeze batch target_ids attributed_fn attribute_target
             attributed_fn_args is_layer_attribution use_baseline is_encoder_decoder = Inr d))"
proof (intro conjI allI impI)
  fix attribute_fn_args baselines
  assume f: "(if is_encoder_decoder
       then format_attribute_args_encoder_decoder unsqueeze batch target_ids attributed_fn
              attribute_target attributed_fn_args is_layer_attribution
       else format_attribute_args_decoder_only unsqueeze batch target_ids attributed_fn
              attributed_fn_args is_layer_attribution) = Inr (attribute_fn_args, baselines)"
  then have k: "map fst attribute_fn_args = [''inputs'', ''additional_forward_args'']"
    by (auto split: if_splits dest: format_attribute_args_encoder_decoder_keys
                                    format_attribute_args_decoder_only_keys)
  then show "''baselines'' \<notin> set (map fst attribute_fn_args)" by simp
  from k obtain x y where "attribute_fn_args = [(''inputs'', x), (''additional_forward_args'', y)]"
    by (cases attribute_fn_args) auto
  with f show "format_attribute_args unsqueeze batch target_ids attributed_fn attribute_target
        attributed_fn_args is_layer_attribution use_baseline is_encoder_decoder =
        Inr (if use_baseline then attribute_fn_args @ [(''baselines'', baselines)]
             else attribute_fn_args)"
    by (simp add: format_attribute_args_def)
next
  fix e
  assume "(if is_encoder_decoder
       then format_attribute_args_encoder_decoder unsqueeze batch target_ids attributed_fn
              attribute_target attributed_fn_args is_layer_attribution
       else format_attribute_args_decoder_only unsqueeze batch target_ids attributed_fn
              attributed_fn_args is_layer_attribution) = Inl e"
  then show "format_attribute_args unsqueeze batch target_ids attributed_fn attribute_target
        attributed_fn_args is_layer_attribution use_baseline is_encoder_decoder = Inl e"
    by (simp add: format_attribute_args_def)
next
  fix d
  assume d: "format_attribute_args unsqueeze batch target_ids attributed_fn attribute_target
        attributed_fn_args is_layer_attribution use_baseline is_encoder_decoder = Inr d"
  then show "\<exists>attribute_fn_args baselines.
         (if is_encoder_decoder
          then format_attribute_args_encoder_decoder unsqueeze batch target_ids attributed_fn
                 attribute_target attributed_fn_args is_layer_attribution
          else format_attribute_args_decoder_only unsqueeze batch target_ids attributed_fn
                 attributed_fn_args is_layer_attribution) = Inr (attribute_fn_args, baselines) \<and>
         d = (if use_baseline then attribute_fn_args @ [(''baselines'', baselines)]
              else attribute_fn_args) \<and>
         (\<forall>k. k \<noteq> ''baselines'' \<longrightarrow> map_of d k = map_of attribute_fn_args k)"
    unfolding format_attribute_args_def
    by (auto split: sum.splits if_splits
           dest!: format_attribute_args_encoder_decoder_keys
                  format_attribute_args_decoder_only_keys)
  from d show "''baselines'' \<in> set (map fst d) \<longleftrightarrow> use_baseline"
    unfolding format_attribute_args_def
    by (auto split: sum.splits if_splits
           dest!: format_attribute_args_encoder_decoder_keys
                  format_attribute_args_decoder_only_keys)
next
  assume "case batch of EncoderDecoderBatch sources targets \<Rightarrow> is_encoder_decoder
               | DecoderOnlyBatch b \<Rightarrow> \<not> is_encoder_decoder"
  then show "\<exists>d. format_attribute_args unsqueeze batch target_ids attributed_fn attribute_target
             attributed_fn_args is_layer_attribution use_baseline is_encoder_decoder = Inr d"
    by (cases batch) (simp_all add: format_attribute_args_def Let_def split: prod.splits)
qed

theorem format_attribute_args_dispatch_witness:
  "format_attribute_args (\<lambda>t i. t + 100)
     (EncoderDecoderBatch
        \<lparr>input_tokens = [[''a'']], input_ids = 1, input_embeds = 2,
         baseline_ids = 3, baseline_embeds = 4, attention_mask = (5::nat)\<rparr>
        \<lparr>input_tokens = [[''b'']], input_ids = 11, input_embeds = 12,
         baseline_ids = 13, baseline_embeds = 14, attention_mask = 15\<rparr>)
     7 (0::nat) False [(''x'', Obj (1::nat))] False True True
   = Inr [(''inputs'', Tuple [Tensor 2]),
          (''additional_forward_args'',
           Tuple [Tensor 12, Tensor 1, Tensor 11, Tensor 107, Callable 0, Tensor 5, Tensor 15,
                  Bool True, StrList [''x''], Obj 1]),
          (''baselines'', Tuple [Tensor 4])] \<and>
   format_attribute_args (\<lambda>t i. t + 100)
     (DecoderOnlyBatch
        \<lparr>input_tokens = [[''a'']], input_ids = 1, input_embeds = 2,
         baseline_ids = 3, baseline_embeds = 4, attention_mask = (5::nat)\<rparr>)
     7 (0::nat) True [(''x'', Obj (1::nat))] True False False
   = Inr [(''inputs'', Tuple [Tensor 1]),
          (''additional_forward_args'',
           Tuple [Tensor 1, Tensor 107, Callable 0, Tensor 5, Bool False, StrList [''x''],
                  Obj 1])]"
proof
  have f: "(if True
       then format_attribute_args_encoder_decoder (\<lambda>t i. t + 100)
              (EncoderDecoderBatch
                \<lparr>input_tokens = [[''a'']], input_ids = 1, input_embeds = 2,
                 baseline_ids = 3, baseline_embeds = 4, attention_mask = (5::nat)\<rparr>
                \<lparr>input_tokens = [[''b'']], input_ids = 11, input_embeds = 12,
                 baseline_ids = 13, baseline_embeds = 14, attention_mask = 15\<rparr>)
              7 (0::nat) False [(''x'', Obj (1::nat))] False
       else format_attribute_args_decoder_only (\<lambda>t i. t + 100)
              (EncoderDecoderBatch
                \<lparr>input_tokens = [[''a'']], input_ids = 1, input_embeds = 2,
                 baseline_ids = 3, baseline_embeds = 4, attention_mask = (5::nat)\<rparr>
                \<lparr>input_tokens = [[''b'']], input_ids = 11, input_embeds = 12,
                 baseline_ids = 13, baseline_embeds = 14, attention_mask = 15\<rparr>)
              7 (0::nat) [(''x'', Obj (1::nat))] False)
     = Inr ([(''inputs'', Tuple [Tensor 2]),
             (''additional_forward_args'',
              Tuple [Tensor 12, Tensor 1, Tensor 11, Tensor 107, Callable 0, Tensor 5,
                     Tensor 15, Bool True, StrList [''x''], Obj 1])],
            Tuple [Tensor 4])"
    by simp
  from format_attribute_args_dispatch [where use_baseline = True, THEN conjunct1, rule_format,
         OF f, THEN conjunct1]
  show "format_attribute_args (\<lambda>t i. t + 100)
     (EncoderDecoderBatch
        \<lparr>input_tokens = [[''a'']], input_ids = 1, input_embeds = 2,
         baseline_ids = 3, baseline_embeds = 4, attention_mask = (5::nat)\<rparr>
        \<lparr>input_tokens = [[''b'']], input_ids = 11, input_embeds = 12,
         baseline_ids = 13, baseline_embeds = 14, attention_mask = 15\<rparr>)
     7 (0::nat) False [(''x'', Obj (1::nat))] False True True
   = Inr [(''inputs'', Tuple [Tensor 2]),
          (''additional_forward_args'',
           Tuple [Tensor 12, Tensor 1, Tensor 11, Tensor 107, Callable 0, Tensor 5, Tensor 15,
                  Bool True, StrList [''x''], Obj 1]),
          (''baselines'', Tuple [Tensor 4])]"
    by simp
next
  have f: "(if False
       then format_attribute_args_encoder_decoder (\<lambda>t i. t + 100)
              (DecoderOnlyBatch
                \<lparr>input_tokens = [[''a'']], input_ids = 1, input_embeds = 2,
                 baseline_ids = 3, baseline_embeds = 4, attention_mask = (5::nat)\<rparr>)
              7 (0::nat) True [(''x'', Obj (1::nat))] True
       else format_attribute_args_decoder_only (\<lambda>t i. t + 100)
              (DecoderOnlyBatch
                \<lparr>input_tokens = [[''a'']], input_ids = 1, input_embeds = 2,
                 baseline_ids = 3, baseline_embeds = 4, attention_mask = (5::nat)\<rparr>)
              7 (0::nat) [(''x'', Obj (1::nat))] True)
     = Inr ([(''inputs'', Tuple [Tensor 1]),
             (''additional_forward_args'',
              Tuple [Tensor 1, Tensor 107, Callable 0, Tensor 5, Bool False, StrList [''x''],
                     Obj 1])],
            Tuple [Tensor 3])"
    by simp
  from format_attribute_args_dispatch [where use_baseline = False, THEN conjunct1, rule_format,
         OF f, THEN conjunct1]
  show "format_attribute_args (\<lambda>t i. t + 100)
     (DecoderOnlyBatch
        \<lparr>input_tokens = [[''a'']], input_ids = 1, input_embeds = 2,
         baseline_ids = 3, baseline_embeds = 4, attention_mask = (5::nat)\<rparr>)
     7 (0::nat) True [(''x'', Obj (1::nat))] True False False
   = Inr [(''inputs'', Tuple [Tensor 1]),
          (''additional_forward_args'',
           Tuple [Tensor 1, Tensor 107, Callable 0, Tensor 5, Bool False, StrList [''x''],
                  Obj 1])]"
    by simp
qed

subsection \<open>The step-score registry\<close>

lemma register_step_score_map:
  "STEP_SCORES_MAP (snd (register_step_score fn identifier aggregate_map g)) =
     AList.update identifier fn (STEP_SCORES_MAP g)"
  by (simp add: register_step_score_def Let_def split: option.splits prod.splits)

text \<open>
  C5. On import the registry holds the four identifiers \<^verbatim>\<open>probability\<close>, \<^verbatim>\<open>entropy\<close>,
  \<^verbatim>\<open>crossentropy\<close> and \<^verbatim>\<open>perplexity\<close>, and \<^verbatim>\<open>list_step_scores\<close> returns exactly these.
  After \<^verbatim>\<open>register_step_score(fn, identifier)\<close>, whatever the aggregate map and whether or
  not its loop raised, the registry maps \<open>identifier\<close> to \<open>fn\<close> and
  \<^verbatim>\<open>list_step_scores\<close> includes \<open>identifier\<close>.
\<close>

theorem step_score_registry:
  "list_step_scores (module_globals output2prob output2ent output2ce output2ppl aggregate_dict) =
     [''probability'', ''entropy'', ''crossentropy'', ''perplexity''] \<and>
   dom (map_of (STEP_SCORES_MAP
                  (module_globals output2prob output2ent output2ce output2ppl aggregate_dict))) =
     {''probability'', ''entropy'', ''crossentropy'', ''perplexity''} \<and>
   map_of (STEP_SCORES_MAP (snd (register_step_score fn identifier aggregate_map g))) identifier =
     Some fn \<and>
   identifier \<in> set (list_step_scores (snd (register_step_score fn identifier aggregate_map g)))"
proof -
  have "dom (map_of (STEP_SCORES_MAP
                  (module_globals output2prob output2ent output2ce output2ppl aggregate_dict))) =
     {''probability'', ''entropy'', ''crossentropy'', ''perplexity''}"
    unfolding dom_map_of_conv_image_fst by (auto simp: module_globals_def)
  then show ?thesis
    by (simp add: list_step_scores_def module_globals_def register_step_score_map
                  AList.update_conv' AList.dom_update)
qed

subsection \<open>Merging keyword arguments\<close>

lemma map_of_dict_update:
  "map_of (dict_update d other) = map_of d ++ map_of (rev other)"
  unfolding dict_update_def
  by (induction other arbitrary: d)
     (auto simp: AList.update_conv' fun_eq_iff map_add_def split: option.splits)

lemma extract_step_scores_args_raises_iff:
  "(\<exists>e. extract_step_scores_args esa g kwargs default_args step_scores extra = Inl e) \<longleftrightarrow>
     (\<exists>step_score \<in> set step_scores. map_of (STEP_SCORES_MAP g) step_score = None)"
  by (induction step_scores arbitrary: extra) (auto split: option.splits)

lemma extract_step_scores_args_error:
  "extract_step_scores_args esa g kwargs default_args step_scores extra = Inl e \<Longrightarrow>
     \<exists>msg. e = AttributeError msg"
  by (induction step_scores arbitrary: extra) (auto split: option.splits)



text \<open>
  C4. \<^verbatim>\<open>extract_args\<close> raises an \<open>AttributeError\<close> if and only if some identifier of
  \<open>step_scores\<close> is not a key of \<^verbatim>\<open>STEP_SCORES_MAP\<close>.
\<close>

theorem extract_args_raises_iff:
  "((\<exists>msg. extract_args get_attribution_args extract_signature_args g attributed_fn step_scores
            default_args kw = Inl (AttributeError msg)) \<longleftrightarrow>
    (\<exists>step_score \<in> set step_scores. step_score \<notin> fst ` set (STEP_SCORES_MAP g)))"
proof -
  have "(\<exists>e. extract_args get_attribution_args extract_signature_args g attributed_fn step_scores
            default_args kw = Inl e) \<longleftrightarrow>
        (\<exists>e. extract_step_scores_args extract_signature_args g (kw_rest kw) default_args step_scores [] = Inl e)"
    by (auto simp: extract_args_def Let_def split: prod.splits sum.splits)
  moreover have "\<And>e. extract_args get_attribution_args extract_signature_args g attributed_fn step_scores
            default_args kw = Inl e \<Longrightarrow> \<exists>msg. e = AttributeError msg"
    by (auto simp: extract_args_def Let_def split: prod.splits sum.splits dest: extract_step_scores_args_error)
  ultimately show ?thesis
    unfolding extract_step_scores_args_raises_iff map_of_eq_None_iff by blast
qed

theorem extract_args_raises_iff_witness:
  "(\<exists>msg. extract_args (\<lambda>kwargs. (kwargs, []))
            (\<lambda>kwargs fn exclude_args return_remaining. ([], kwargs))
            (module_globals (0::nat) 1 2 3 []) 0 [''probability'', ''accuracy''] []
            \<lparr>kw_attribution_args = None, kw_attributed_fn_args = None,
             kw_step_scores_args = None, kw_rest = [(''x'', Tensor (1::nat) :: (nat, nat, nat) pyval)]\<rparr>
          = Inl (AttributeError msg)) \<and>
   ''accuracy'' \<notin> fst ` set (STEP_SCORES_MAP (module_globals (0::nat) 1 2 3 []))"
proof -
  have m: "''accuracy'' \<notin> fst ` set (STEP_SCORES_MAP (module_globals (0::nat) 1 2 3 []))"
    by (simp add: module_globals_def)
  then have "\<exists>step_score \<in> set [''probability'', ''accuracy''].
               step_score \<notin> fst ` set (STEP_SCORES_MAP (module_globals (0::nat) 1 2 3 []))"
    by simp
  then have "\<exists>msg. extract_args (\<lambda>kwargs. (kwargs, []))
            (\<lambda>kwargs fn exclude_args return_remaining. ([], kwargs))
            (module_globals (0::nat) 1 2 3 []) 0 [''probability'', ''accuracy''] []
            \<lparr>kw_attribution_args = None, kw_attributed_fn_args = None,
             kw_step_scores_args = None, kw_rest = [(''x'', Tensor (1::nat) :: (nat, nat, nat) pyval)]\<rparr>
          = Inl (AttributeError msg)"
    by (rule extract_args_raises_iff [THEN iffD2])
  then show ?thesis using m by (rule conjI)
qed





subsection \<open>Who writes the registries\<close>





text \<open>
  \<^verbatim>\<open>register_step_score\<close> does write: without an aggregate map, the registry object
  afterwards is the old one with \<open>identifier\<close> bound to \<open>fn\<close>.
\<close>

lemma register_step_score_in_place_writes:
  assumes "STEP_SCORES_MAP_at m < length h"
    and "map_of (h ! STEP_SCORES_MAP_at m) identifier \<noteq> Some (Callable fn)"
  shows "snd (register_step_score_in_place m fn identifier None h) ! STEP_SCORES_MAP_at m
           = AList.update identifier (Callable fn) (h ! STEP_SCORES_MAP_at m)"
    and "snd (register_step_score_in_place m fn identifier None h) ! STEP_SCORES_MAP_at m
           \<noteq> h ! STEP_SCORES_MAP_at m"
proof -
  show w: "snd (register_step_score_in_place m fn identifier None h) ! STEP_SCORES_MAP_at m
           = AList.update identifier (Callable fn) (h ! STEP_SCORES_MAP_at m)"
    using assms(1) by (simp add: register_step_score_in_place_def)
  have "map_of (AList.update identifier (Callable fn) (h ! STEP_SCORES_MAP_at m)) identifier
          = Some (Callable fn)"
    by (simp add: AList.update_conv')
  with assms(2) have "AList.update identifier (Callable fn) (h ! STEP_SCORES_MAP_at m)
                        \<noteq> h ! STEP_SCORES_MAP_at m"
    by metis
  with w show "snd (register_step_score_in_place m fn identifier None h) ! STEP_SCORES_MAP_at m
           \<noteq> h ! STEP_SCORES_MAP_at m" by simp
qed




end
